theory Spec2Isabelle
  imports Main "HOL-Library.Word" "HOL-Library.Monad_Syntax"
begin

unbundle bit_operations_syntax

section \<open>Wire encoding of request payloads\<close>

text \<open>
  Modelled from the spec: the payload decoder \<^verbatim>\<open>ssh.Unmarshal\<close> and the encoder
  \<^verbatim>\<open>ssh.Marshal\<close>, which \<^verbatim>\<open>main.go\<close> calls and which belong to the library
  \<^verbatim>\<open>golang.org/x/crypto/ssh\<close>, not to the sources. They follow the wire format of
  section 6 of the specification: every integer is a big-endian \<^verbatim>\<open>uint32\<close>, every string
  (and byte string) carries a \<^verbatim>\<open>uint32\<close> length prefix, and the fields follow each other
  in the order of the struct. Decoding fails when the payload is too short for a field
  or, as in the library, when bytes are left over. The theorems about the handler depend
  on a decoder only through its result.
\<close>

type_synonym byte = "8 word"
type_synonym uint16 = "16 word"
type_synonym uint32 = "32 word"

fun parseUint32 :: "byte list \<Rightarrow> (uint32 \<times> byte list) option" where
  "parseUint32 (a # b # c # d # rest) =
     Some (of_nat (unat a * 16777216 + unat b * 65536 + unat c * 256 + unat d), rest)"
| "parseUint32 _ = None"

definition parseString :: "byte list \<Rightarrow> (byte list \<times> byte list) option" where
  "parseString data =
     (case parseUint32 data of
        None \<Rightarrow> None
      | Some (n, rest) \<Rightarrow>
          if length rest < unat n then None
          else Some (take (unat n) rest, drop (unat n) rest))"

text \<open>A Go string is a sequence of bytes, as an Isabelle \<open>string\<close> is.\<close>

definition gostring :: "byte list \<Rightarrow> string" where
  "gostring bs = map (\<lambda>b. char_of (unat b)) bs"

record ptyreq =
  Term :: string
  Cols :: uint32
  Rows :: uint32
  Width :: uint32
  Height :: uint32
  Modes :: "byte list"

record winch =
  wc_Cols :: uint32
  wc_Rows :: uint32
  wc_Width :: uint32
  wc_Height :: uint32

definition unmarshal_ptyreq :: "byte list \<Rightarrow> ptyreq option" where
  "unmarshal_ptyreq data = do {
     (t, d1) \<leftarrow> parseString data;
     (c, d2) \<leftarrow> parseUint32 d1;
     (r, d3) \<leftarrow> parseUint32 d2;
     (w, d4) \<leftarrow> parseUint32 d3;
     (h, d5) \<leftarrow> parseUint32 d4;
     (m, d6) \<leftarrow> parseString d5;
     if d6 = [] then
       Some \<lparr>Term = gostring t, Cols = c, Rows = r, Width = w, Height = h, Modes = m\<rparr>
     else None
   }"

definition unmarshal_winch :: "byte list \<Rightarrow> winch option" where
  "unmarshal_winch data = do {
     (c, d1) \<leftarrow> parseUint32 data;
     (r, d2) \<leftarrow> parseUint32 d1;
     (w, d3) \<leftarrow> parseUint32 d2;
     (h, d4) \<leftarrow> parseUint32 d3;
     if d4 = [] then
       Some \<lparr>wc_Cols = c, wc_Rows = r, wc_Width = w, wc_Height = h\<rparr>
     else None
   }"

text \<open>The payload of \<^verbatim>\<open>exec\<close>: \<^verbatim>\<open>struct{ Command string }\<close>.\<close>

definition unmarshal_exec :: "byte list \<Rightarrow> string option" where
  "unmarshal_exec data = do {
     (c, d1) \<leftarrow> parseString data;
     if d1 = [] then Some (gostring c) else None
   }"

definition marshal_uint32 :: "uint32 \<Rightarrow> byte list" where
  "marshal_uint32 w =
     [ucast (drop_bit 24 w), ucast (drop_bit 16 w), ucast (drop_bit 8 w), ucast w]"

section \<open>The environment of one channel\<close>

text \<open>
  What the operating system answers is not decided by the program. It is a parameter of
  the model, indexed by the position of the request being handled: whether
  \<^verbatim>\<open>os.Stat("/bin/bash")\<close> succeeds, the file returned by \<^verbatim>\<open>pty.Start\<close> (\<open>None\<close> when it
  returns an error), whether \<^verbatim>\<open>cmd.Start\<close> succeeds, and what \<^verbatim>\<open>cmd.Wait\<close> returns
  (\<open>None\<close> when the process never terminates, so that the call never returns).
\<close>

datatype wait_result =
    WaitNil                     \<comment> \<open>\<^verbatim>\<open>err == nil\<close>\<close>
  | WaitExitError "int option"  \<comment> \<open>an \<^verbatim>\<open>*exec.ExitError\<close>; \<open>Some s\<close> when \<^verbatim>\<open>Sys()\<close> is a
                                    \<^verbatim>\<open>syscall.WaitStatus\<close> whose \<^verbatim>\<open>ExitStatus()\<close> is \<open>s\<close>\<close>
  | WaitOtherError              \<comment> \<open>any other error\<close>

record env =
  stat_bash :: "nat \<Rightarrow> bool"
  pty_Start :: "nat \<Rightarrow> nat option"
  cmd_Start :: "nat \<Rightarrow> bool"
  cmd_Wait :: "nat \<Rightarrow> wait_result option"

section \<open>Requests, commands and the calls the handler makes\<close>

record request =
  req_Type :: string
  req_Payload :: "byte list"

datatype stream =
    Channel         \<comment> \<open>\<^verbatim>\<open>ch\<close>\<close>
  | ChannelStderr   \<comment> \<open>\<^verbatim>\<open>ch.Stderr()\<close>\<close>
  | PtyFile nat     \<comment> \<open>the file returned by \<^verbatim>\<open>pty.Start\<close>\<close>
  | StdinPipe | StdoutPipe | StderrPipe

record cmd =
  Args :: "string list"
  Stdin :: "stream option"
  Stdout :: "stream option"
  Stderr :: "stream option"

definition Command :: "string \<Rightarrow> string list \<Rightarrow> cmd" where
  "Command name arg = \<lparr>Args = name # arg, Stdin = None, Stdout = None, Stderr = None\<rparr>"

text \<open>
  The calls the handler makes on its collaborators, in the order it makes them. A reply
  carries the position of the request it answers.
\<close>

datatype event =
    Reply nat bool                  \<comment> \<open>\<^verbatim>\<open>req.Reply(ok, nil)\<close>\<close>
  | PtyStart cmd "nat option"       \<comment> \<open>\<^verbatim>\<open>pty.Start(cmd)\<close> and the file it returned\<close>
  | Setsize nat uint16 uint16       \<comment> \<open>\<^verbatim>\<open>pty.Setsize(f, &Winsize{Cols, Rows})\<close>\<close>
  | CmdStart cmd bool               \<comment> \<open>\<^verbatim>\<open>cmd.Start()\<close> and whether it succeeded\<close>
  | GoCopy stream stream            \<comment> \<open>\<^verbatim>\<open>go io.Copy(dst, src)\<close>\<close>
  | SendRequest string bool "byte list"  \<comment> \<open>\<^verbatim>\<open>ch.SendRequest(name, wantReply, payload)\<close>\<close>
  | ChClose                         \<comment> \<open>the deferred \<^verbatim>\<open>ch.Close()\<close>\<close>

text \<open>How the body of the loop ends: \<^verbatim>\<open>continue\<close> (or the end of the \<^verbatim>\<open>switch\<close>),
  \<^verbatim>\<open>return\<close>, or never, blocked in \<^verbatim>\<open>cmd.Wait\<close>.\<close>

datatype flow = Continue | Return | Blocked

record session =
  ptyRequested :: bool
  ptyCols :: uint32
  ptyRows :: uint32
  ptyFile :: "nat option"

section \<open>The session handler\<close>

text \<open>\<^verbatim>\<open>sendExitStatus(ch, status)\<close>: the status is converted to \<^verbatim>\<open>uint32\<close>.\<close>

definition sendExitStatus :: "int \<Rightarrow> event list" where
  "sendExitStatus status = [SendRequest ''exit-status'' False (marshal_uint32 (word_of_int status))]"

text \<open>The three copies of the code that follows \<^verbatim>\<open>cmd.Wait()\<close>.\<close>

definition wait_report :: "wait_result \<Rightarrow> event list" where
  "wait_report w =
     (case w of
        WaitExitError (Some status) \<Rightarrow> sendExitStatus status
      | WaitExitError None \<Rightarrow> []
      | WaitOtherError \<Rightarrow> []
      | WaitNil \<Rightarrow> sendExitStatus 0)"

definition wait_and_report :: "env \<Rightarrow> nat \<Rightarrow> event list \<times> flow" where
  "wait_and_report e i =
     (case cmd_Wait e i of
        None \<Rightarrow> ([], Blocked)
      | Some w \<Rightarrow> (wait_report w, Return))"

text \<open>One iteration of \<^verbatim>\<open>for req := range reqs\<close>: the \<^verbatim>\<open>switch req.Type\<close>.\<close>

definition session_request ::
  "env \<Rightarrow> nat \<Rightarrow> request \<Rightarrow> session \<Rightarrow> event list \<times> session \<times> flow" where
  "session_request e i req st =
    (if req_Type req = ''pty-req'' then
       (case unmarshal_ptyreq (req_Payload req) of
          None \<Rightarrow> ([Reply i False], st, Continue)
        | Some p \<Rightarrow>
            ([Reply i True],
             st\<lparr>ptyRequested := True, ptyCols := Cols p, ptyRows := Rows p\<rparr>, Continue))
     else if req_Type req = ''window-change'' then
       (case unmarshal_winch (req_Payload req) of
          None \<Rightarrow> ([], st, Continue)
        | Some wc \<Rightarrow>
            (let st' = st\<lparr>ptyCols := wc_Cols wc, ptyRows := wc_Rows wc\<rparr> in
             ((case ptyFile st' of
                 None \<Rightarrow> []
               | Some f \<Rightarrow> [Setsize f (ucast (ptyCols st')) (ucast (ptyRows st'))]),
              st', Continue)))
     else if req_Type req = ''shell'' then
       (if length (req_Payload req) \<noteq> 0 then ([Reply i False], st, Continue)
        else
          (let shellPath = (if stat_bash e i then ''/bin/bash'' else ''/bin/sh'');
               cmd = Command shellPath [''-l'']
           in if ptyRequested st then
                (case pty_Start e i of
                   None \<Rightarrow> ([PtyStart cmd None, Reply i False], st, Continue)
                 | Some f \<Rightarrow>
                     (let (es, fl) = wait_and_report e i in
                      ([PtyStart cmd (Some f)]
                       @ (if ptyCols st > 0 \<and> ptyRows st > 0
                          then [Setsize f (ucast (ptyCols st)) (ucast (ptyRows st))] else [])
                       @ [Reply i True, GoCopy (PtyFile f) Channel, GoCopy Channel (PtyFile f)]
                       @ es,
                       st\<lparr>ptyFile := Some f\<rparr>, fl)))
              else
                (let cmd' = cmd\<lparr>Stdin := Some StdinPipe, Stdout := Some StdoutPipe,
                                Stderr := Some StderrPipe\<rparr>
                 in if \<not> cmd_Start e i then ([CmdStart cmd' False, Reply i False], st, Continue)
                    else
                      (let (es, fl) = wait_and_report e i in
                       ([CmdStart cmd' True, Reply i True, GoCopy StdinPipe Channel,
                         GoCopy Channel StdoutPipe, GoCopy ChannelStderr StderrPipe] @ es,
                        st, fl)))))
     else if req_Type req = ''exec'' then
       (case unmarshal_exec (req_Payload req) of
          None \<Rightarrow> ([Reply i False], st, Continue)
        | Some command \<Rightarrow>
            (let cmd = (Command ''/bin/sh'' [''-c'', command])
                         \<lparr>Stdin := Some Channel, Stdout := Some Channel,
                          Stderr := Some ChannelStderr\<rparr>
             in if \<not> cmd_Start e i then ([CmdStart cmd False, Reply i False], st, Continue)
                else
                  (let (es, fl) = wait_and_report e i in
                   ([CmdStart cmd True, Reply i True] @ es, st, fl))))
     else ([Reply i False], st, Continue))"

text \<open>
  The loop over the requests of the channel. The requests are the finite sequence the
  peer sent before the request stream was closed. When the loop ends, by \<^verbatim>\<open>return\<close> or
  because the stream is exhausted, the deferred \<^verbatim>\<open>ch.Close()\<close> runs; a loop blocked in
  \<^verbatim>\<open>cmd.Wait\<close> reads no further request and closes nothing.
\<close>

fun session_loop :: "env \<Rightarrow> nat \<Rightarrow> session \<Rightarrow> request list \<Rightarrow> event list" where
  "session_loop e i st [] = [ChClose]"
| "session_loop e i st (req # reqs) =
     (case session_request e i req st of
        (es, st', Continue) \<Rightarrow> es @ session_loop e (Suc i) st' reqs
      | (es, st', Return) \<Rightarrow> es @ [ChClose]
      | (es, st', Blocked) \<Rightarrow> es)"

text \<open>The goroutine of one channel: the four variables start at their zero values.\<close>

definition session_init :: session where
  "session_init = \<lparr>ptyRequested = False, ptyCols = 0, ptyRows = 0, ptyFile = None\<rparr>"

definition session_handler :: "env \<Rightarrow> request list \<Rightarrow> event list" where
  "session_handler e reqs = session_loop e 0 session_init reqs"

text \<open>The events that start a process, and the exit-status notification.\<close>

fun starts_process :: "event \<Rightarrow> bool" where
  "starts_process (PtyStart c (Some f)) = True"
| "starts_process (CmdStart c True) = True"
| "starts_process _ = False"

fun is_exit_status :: "event \<Rightarrow> bool" where
  "is_exit_status (SendRequest name wantReply p) = (name = ''exit-status'')"
| "is_exit_status _ = False"

section \<open>The connection supervisor\<close>

text \<open>
  \<^verbatim>\<open>handleConn\<close> after the handshake: the loop over the channel-open events of the
  connection. A channel-open event is its channel type; whether \<^verbatim>\<open>newChannel.Accept()\<close>
  succeeds is decided outside the program and is a parameter, indexed by the position of
  the event.
\<close>

datatype RejectionReason = Prohibited | ConnectionFailed | UnknownChannelType | ResourceShortage

datatype conn_event =
    NewChannelReject nat RejectionReason string  \<comment> \<open>\<^verbatim>\<open>newChannel.Reject(reason, message)\<close>\<close>
  | NewChannelAccept nat bool                    \<comment> \<open>\<^verbatim>\<open>newChannel.Accept()\<close> and whether it succeeded\<close>
  | GoSession nat                                \<comment> \<open>\<^verbatim>\<open>go func(ch, reqs) {...}(channel, requests)\<close>\<close>
  | GoDiscardRequests                            \<comment> \<open>\<^verbatim>\<open>go ssh.DiscardRequests(reqs)\<close>\<close>
  | ConnClose                                    \<comment> \<open>the deferred \<^verbatim>\<open>conn.Close()\<close>\<close>

definition channel_open :: "(nat \<Rightarrow> bool) \<Rightarrow> nat \<Rightarrow> string \<Rightarrow> conn_event list" where
  "channel_open accept k channelType =
     (if channelType \<noteq> ''session'' then
        [NewChannelReject k UnknownChannelType ''only session channels are supported'']
      else if \<not> accept k then [NewChannelAccept k False]
      else [NewChannelAccept k True, GoSession k])"

fun handleConn_chans :: "(nat \<Rightarrow> bool) \<Rightarrow> nat \<Rightarrow> string list \<Rightarrow> conn_event list" where
  "handleConn_chans accept k [] = []"
| "handleConn_chans accept k (t # ts) = channel_open accept k t @ handleConn_chans accept (Suc k) ts"

definition handleConn :: "bool \<Rightarrow> (nat \<Rightarrow> bool) \<Rightarrow> string list \<Rightarrow> conn_event list" where
  "handleConn handshake_ok accept chans =
     (if \<not> handshake_ok then [ConnClose]
      else GoDiscardRequests # handleConn_chans accept 0 chans @ [ConnClose])"

section \<open>Example peers\<close>

text \<open>An environment where every call succeeds and the process exits with status 0.\<close>

definition env_ok :: env where
  "env_ok = \<lparr>stat_bash = (\<lambda>_. True), pty_Start = (\<lambda>_. Some 3), cmd_Start = (\<lambda>_. True),
             cmd_Wait = (\<lambda>_. Some WaitNil)\<rparr>"

text \<open>\<^verbatim>\<open>window-change\<close> to 80 columns and 24 rows.\<close>

definition payload_winch_80x24 :: "byte list" where
  "payload_winch_80x24 = [0,0,0,80, 0,0,0,24, 0,0,0,0, 0,0,0,0]"

text \<open>\<^verbatim>\<open>pty-req\<close> for the terminal \<^verbatim>\<open>xterm\<close>, 132 columns and 43 rows, no modes.\<close>

definition payload_ptyreq_132x43 :: "byte list" where
  "payload_ptyreq_132x43 =
     [0,0,0,5, 120,116,101,114,109, 0,0,0,132, 0,0,0,43, 0,0,0,0, 0,0,0,0, 0,0,0,0]"

text \<open>\<^verbatim>\<open>exec\<close> of the command \<^verbatim>\<open>exit 7\<close>.\<close>

definition payload_exec_exit7 :: "byte list" where
  "payload_exec_exit7 = [0,0,0,6, 101,120,105,116,32,55]"

definition req_winch :: request where
  "req_winch = \<lparr>req_Type = ''window-change'', req_Payload = payload_winch_80x24\<rparr>"

definition req_ptyreq :: request where
  "req_ptyreq = \<lparr>req_Type = ''pty-req'', req_Payload = payload_ptyreq_132x43\<rparr>"

definition req_shell :: request where
  "req_shell = \<lparr>req_Type = ''shell'', req_Payload = []\<rparr>"

definition req_exec :: request where
  "req_exec = \<lparr>req_Type = ''exec'', req_Payload = payload_exec_exit7\<rparr>"

text \<open>
  Environments where \<^verbatim>\<open>cmd.Wait\<close> returns an error that is not an \<^verbatim>\<open>*exec.ExitError\<close>
  (an input or output error of the copies it waits for), where the process exits with
  status 7, and where no process can be started.
\<close>

definition env_wait_error :: env where
  "env_wait_error = env_ok\<lparr>cmd_Wait := (\<lambda>_. Some WaitOtherError)\<rparr>"

definition env_exit7 :: env where
  "env_exit7 = env_ok\<lparr>cmd_Wait := (\<lambda>_. Some (WaitExitError (Some 7)))\<rparr>"

definition env_spawn_fails :: env where
  "env_spawn_fails = env_ok\<lparr>pty_Start := (\<lambda>_. None), cmd_Start := (\<lambda>_. False)\<rparr>"

text \<open>
  Requests that the handler rejects: a \<^verbatim>\<open>shell\<close> request with a payload, a \<^verbatim>\<open>pty-req\<close> and an
  \<^verbatim>\<open>exec\<close> whose string is longer than the payload, and a request of type \<^verbatim>\<open>env\<close>.
\<close>

definition req_shell_ls :: request where
  "req_shell_ls = \<lparr>req_Type = ''shell'', req_Payload = [108, 115]\<rparr>"

definition req_ptyreq_short :: request where
  "req_ptyreq_short = \<lparr>req_Type = ''pty-req'', req_Payload = [0,0,0,5, 120]\<rparr>"

definition req_exec_short :: request where
  "req_exec_short = \<lparr>req_Type = ''exec'', req_Payload = [0,0,0,9, 101]\<rparr>"

definition req_env :: request where
  "req_env = \<lparr>req_Type = ''env'', req_Payload = []\<rparr>"

text \<open>\<^verbatim>\<open>window-change\<close> to 65616 columns (65536 + 80) and 24 rows.\<close>

definition req_winch_wide :: request where
  "req_winch_wide = \<lparr>req_Type = ''window-change'',
                      req_Payload = [0,1,0,80, 0,0,0,24, 0,0,0,0, 0,0,0,0]\<rparr>"

text \<open>
  Session states: a terminal is live, a geometry of 65616 columns was recorded, and a
  terminal was requested.
\<close>

definition session_live :: session where
  "session_live = \<lparr>ptyRequested = True, ptyCols = 0, ptyRows = 0, ptyFile = Some 3\<rparr>"

definition session_wide :: session where
  "session_wide = \<lparr>ptyRequested = True, ptyCols = 65616, ptyRows = 24, ptyFile = None\<rparr>"

definition session_pty :: session where
  "session_pty = session_init\<lparr>ptyRequested := True\<rparr>"

text \<open>The calls that resize a pseudo-terminal or launch a relay goroutine.\<close>

fun pty_or_relay :: "event \<Rightarrow> bool" where
  "pty_or_relay (GoCopy dst src) = True"
| "pty_or_relay (Setsize f c r) = True"
| "pty_or_relay _ = False"

section \<open>Requests the loop reads, and the geometry they record\<close>

text \<open>A run request: \<^verbatim>\<open>shell\<close> or \<^verbatim>\<open>exec\<close>.\<close>

definition run_request :: "request \<Rightarrow> bool" where
  "run_request req = (req_Type req = ''shell'' \<or> req_Type req = ''exec'')"

text \<open>
  The loop run on a sequence of requests without ending: the calls made and the values of
  the four variables afterwards. The result is \<open>None\<close> when one of the requests ended the
  loop, by \<^verbatim>\<open>return\<close> or blocked in \<^verbatim>\<open>cmd.Wait\<close>, so that the requests after it are never read.
\<close>

fun session_steps ::
  "env \<Rightarrow> nat \<Rightarrow> session \<Rightarrow> request list \<Rightarrow> (event list \<times> session) option" where
  "session_steps e i st [] = Some ([], st)"
| "session_steps e i st (req # reqs) =
     (case session_request e i req st of
        (es, st', Continue) \<Rightarrow>
          (case session_steps e (Suc i) st' reqs of
             None \<Rightarrow> None
           | Some (es', st'') \<Rightarrow> Some (es @ es', st''))
      | (es, st', Return) \<Rightarrow> None
      | (es, st', Blocked) \<Rightarrow> None)"

text \<open>
  The geometry a sequence of requests leaves recorded, read off the requests alone, as
  the specification words it: each \<^verbatim>\<open>pty-req\<close> and each \<^verbatim>\<open>window-change\<close> whose payload
  decodes replaces the recorded columns and rows, every other request leaves them, and
  they start at 0. It is compared below with the variables of the handler.
\<close>

definition record_geometry :: "uint32 \<times> uint32 \<Rightarrow> request \<Rightarrow> uint32 \<times> uint32" where
  "record_geometry g req =
     (if req_Type req = ''pty-req'' then
        (case unmarshal_ptyreq (req_Payload req) of None \<Rightarrow> g | Some p \<Rightarrow> (Cols p, Rows p))
      else if req_Type req = ''window-change'' then
        (case unmarshal_winch (req_Payload req) of None \<Rightarrow> g | Some wc \<Rightarrow> (wc_Cols wc, wc_Rows wc))
      else g)"

definition last_geometry :: "request list \<Rightarrow> uint32 \<times> uint32" where
  "last_geometry reqs = foldl record_geometry (0, 0) reqs"

text \<open>Some \<^verbatim>\<open>pty-req\<close> among the requests decoded, so that a terminal was requested.\<close>

definition terminal_requested :: "request list \<Rightarrow> bool" where
  "terminal_requested reqs =
     (\<exists>req \<in> set reqs. req_Type req = ''pty-req'' \<and> unmarshal_ptyreq (req_Payload req) \<noteq> None)"

section \<open>The relay goroutines\<close>

text \<open>
  The handler launches its relays with \<^verbatim>\<open>go io.Copy(dst, src)\<close> and never waits for them.
  What the peer of the channel observes is therefore the calls of the handler goroutine
  interleaved with the writes \<^verbatim>\<open>ch.Write(chunk)\<close> that the output relay \<^verbatim>\<open>io.Copy(ch, src)\<close>
  makes, one for each chunk the process wrote. The relay can write only after it was
  launched; nothing else orders its writes against the later calls of the handler.
\<close>

datatype observed =
    Call event
  | ChWrite "byte list"

fun is_output_relay :: "event \<Rightarrow> bool" where
  "is_output_relay (GoCopy Channel src) = True"
| "is_output_relay _ = False"

text \<open>
  The schedules of a handler trace and the chunks the process wrote: the calls up to the
  launch of the output relay, then any interleaving of the remaining calls with the
  writes. A handler that launched no output relay makes its calls and nothing is written
  by a relay.
\<close>

fun relay_schedules :: "event list \<Rightarrow> byte list list \<Rightarrow> observed list set" where
  "relay_schedules [] out = {[]}"
| "relay_schedules (ev # tr) out =
     (if is_output_relay ev then (#) (Call ev) ` shuffles (map Call tr) (map ChWrite out)
      else (#) (Call ev) ` relay_schedules tr out)"

text \<open>The bytes written to the channel before the \<^verbatim>\<open>exit-status\<close> request is sent.\<close>

fun written_before_exit :: "observed list \<Rightarrow> byte list" where
  "written_before_exit [] = []"
| "written_before_exit (ChWrite bs # s) = bs @ written_before_exit s"
| "written_before_exit (Call ev # s) = (if is_exit_status ev then [] else written_before_exit s)"

text \<open>The five bytes \<^verbatim>\<open>done\n\<close>, and the commands of the examples.\<close>

definition done_line :: "byte list" where
  "done_line = [100, 111, 110, 101, 10]"

definition bash_pipes :: cmd where
  "bash_pipes = \<lparr>Args = [''/bin/bash'', ''-l''], Stdin = Some StdinPipe, Stdout = Some StdoutPipe,
                  Stderr = Some StderrPipe\<rparr>"

definition bash_login :: cmd where
  "bash_login = \<lparr>Args = [''/bin/bash'', ''-l''], Stdin = None, Stdout = None, Stderr = None\<rparr>"

definition sh_exit7 :: cmd where
  "sh_exit7 = \<lparr>Args = [''/bin/sh'', ''-c'', ''exit 7''], Stdin = Some Channel,
                Stdout = Some Channel, Stderr = Some ChannelStderr\<rparr>"

section \<open>Facts about one request and about the loop\<close>

lemmas example_defs = env_ok_def payload_winch_80x24_def payload_ptyreq_132x43_def
  payload_exec_exit7_def req_winch_def req_ptyreq_def req_shell_def req_exec_def

lemmas run_defs = session_handler_def session_init_def session_request_def
  unmarshal_ptyreq_def unmarshal_winch_def unmarshal_exec_def parseString_def gostring_def
  Command_def wait_and_report_def wait_report_def sendExitStatus_def marshal_uint32_def
  char_of_def bit_0

text \<open>The example payloads decode to what they were written for.\<close>

lemma payload_winch_80x24_decodes:
  "unmarshal_winch payload_winch_80x24 = Some \<lparr>wc_Cols = 80, wc_Rows = 24, wc_Width = 0, wc_Height = 0\<rparr>"
  by (simp add: unmarshal_winch_def payload_winch_80x24_def)

lemma payload_ptyreq_132x43_decodes:
  "unmarshal_ptyreq payload_ptyreq_132x43 =
     Some \<lparr>Term = ''xterm'', Cols = 132, Rows = 43, Width = 0, Height = 0, Modes = []\<rparr>"
  by (simp add: unmarshal_ptyreq_def payload_ptyreq_132x43_def parseString_def gostring_def
        char_of_def bit_0)

text \<open>What follows \<^verbatim>\<open>cmd.Wait()\<close> sends exit-status notifications only and never continues the loop.\<close>

lemma wait_and_report_events:
  "wait_and_report e i = (es, fl) \<Longrightarrow> ev \<in> set es \<Longrightarrow>
     \<exists>p. ev = SendRequest ''exit-status'' False p"
  by (auto simp: wait_and_report_def wait_report_def sendExitStatus_def
           split: option.splits wait_result.splits)

lemma wait_and_report_flow: "wait_and_report e i = (es, fl) \<Longrightarrow> fl \<noteq> Continue"
  by (auto simp: wait_and_report_def split: option.splits)

lemma wait_and_report_no_start:
  "wait_and_report e i = (es, fl) \<Longrightarrow> filter starts_process es = []"
  by (auto simp: wait_and_report_def wait_report_def sendExitStatus_def
           split: option.splits wait_result.splits)

lemma wait_and_report_no_relay:
  "wait_and_report e i = (es, fl) \<Longrightarrow> filter pty_or_relay es = []"
  by (auto simp: wait_and_report_def wait_report_def sendExitStatus_def
           split: option.splits wait_result.splits)

lemma wait_and_report_cases:
  "wait_and_report e i = (es, fl) \<Longrightarrow>
     (cmd_Wait e i = None \<and> es = [] \<and> fl = Blocked)
     \<or> (\<exists>w. cmd_Wait e i = Some w \<and> es = wait_report w \<and> fl = Return)"
  by (auto simp: wait_and_report_def split: option.splits)

lemma wait_report_exit_status: "filter is_exit_status (wait_report w) = wait_report w"
  by (auto simp: wait_report_def sendExitStatus_def split: wait_result.splits option.splits)

lemma wait_and_report_filter:
  "wait_and_report e i = (rep, fl) \<Longrightarrow>
     filter is_exit_status rep = rep \<and> filter (\<lambda>ev. \<not> is_exit_status ev) rep = []"
  by (auto simp: wait_and_report_def wait_report_def sendExitStatus_def
           split: option.splits wait_result.splits)

text \<open>An iteration that goes on to the next request has started no process.\<close>

lemma session_request_Continue_no_start:
  "session_request e i req st = (es, st', Continue) \<Longrightarrow> filter starts_process es = []"
  by (auto simp: session_request_def Let_def dest: wait_and_report_flow
           split: if_splits option.splits prod.splits)


lemma session_request_reply_index:
  "session_request e i req st = (es, st', fl) \<Longrightarrow> Reply j b \<in> set es \<Longrightarrow> j = i"
  by (auto simp: session_request_def Let_def dest: wait_and_report_events
           split: if_splits option.splits prod.splits)

lemma session_request_Continue_no_accept:
  "session_request e i req st = (es, st', Continue) \<Longrightarrow>
   req_Type req = ''shell'' \<or> req_Type req = ''exec'' \<Longrightarrow> Reply j True \<notin> set es"
  by (auto simp: session_request_def Let_def dest: wait_and_report_flow
           split: if_splits option.splits prod.splits)

text \<open>
  While the loop goes on, no terminal is live: \<^verbatim>\<open>ptyFile\<close> is set only in the iteration that
  starts the shell on a terminal, and that iteration ends the loop.
\<close>

lemma session_request_Continue_quiet:
  "session_request e i req st = (es, st', Continue) \<Longrightarrow> ptyFile st = None \<Longrightarrow>
     filter pty_or_relay es = [] \<and> ptyFile st' = None"
  by (auto simp: session_request_def Let_def dest: wait_and_report_flow
           split: if_splits option.splits prod.splits)

text \<open>An iteration that started a process ends with what follows \<^verbatim>\<open>cmd.Wait()\<close>.\<close>

lemma session_request_started_shape:
  "session_request e i req st = (es, st', fl) \<Longrightarrow> filter starts_process es \<noteq> [] \<Longrightarrow>
     wait_and_report e i = (filter is_exit_status es, fl) \<and>
     es = filter (\<lambda>ev. \<not> is_exit_status ev) es @ filter is_exit_status es"
  by (auto simp: session_request_def Let_def wait_and_report_filter
          split: if_splits option.splits prod.splits)

lemma session_request_exec_accepted:
  "session_request e i req st = (es, st', fl) \<Longrightarrow> req_Type req = ''exec'' \<Longrightarrow>
   Reply i True \<in> set es \<Longrightarrow>
     \<exists>c. unmarshal_exec (req_Payload req) = Some c \<and> st' = st \<and> fl \<noteq> Continue \<and>
       es = [CmdStart \<lparr>Args = [''/bin/sh'', ''-c'', c], Stdin = Some Channel,
                        Stdout = Some Channel, Stderr = Some ChannelStderr\<rparr> True,
             Reply i True] @ fst (wait_and_report e i)"
  by (auto simp: session_request_def Let_def Command_def dest: wait_and_report_flow
           split: if_splits option.splits prod.splits)


lemma session_loop_reply_range:
  "Reply j b \<in> set (session_loop e k st reqs) \<Longrightarrow> k \<le> j \<and> j < k + length reqs"
proof (induction reqs arbitrary: k st)
  case Nil
  then show ?case by simp
next
  case (Cons req reqs)
  obtain es st' fl where r: "session_request e k req st = (es, st', fl)"
    by (cases "session_request e k req st") auto
  show ?case
  proof (cases "Reply j b \<in> set es")
    case True
    with r have "j = k" by (rule session_request_reply_index)
    then show ?thesis by simp
  next
    case False
    with Cons.prems r have "fl = Continue \<and> Reply j b \<in> set (session_loop e (Suc k) st' reqs)"
      by (cases fl) auto
    with Cons.IH [of "Suc k" st'] show ?thesis by auto
  qed
qed

text \<open>Once a run request has been accepted, no later request is answered.\<close>

lemma session_loop_silent_after_start:
  "i < length reqs \<Longrightarrow> req_Type (reqs ! i) = ''shell'' \<or> req_Type (reqs ! i) = ''exec'' \<Longrightarrow>
   Reply (k + i) True \<in> set (session_loop e k st reqs) \<Longrightarrow> k + i < j \<Longrightarrow>
   Reply j b \<notin> set (session_loop e k st reqs)"
proof (induction reqs arbitrary: k st i)
  case Nil
  then show ?case by simp
next
  case (Cons req reqs)
  obtain es st' fl where r: "session_request e k req st = (es, st', fl)"
    by (cases "session_request e k req st") auto
  have idx: "\<And>n c. Reply n c \<in> set es \<Longrightarrow> n = k"
    using r by (rule session_request_reply_index)
  have later: "Reply j b \<notin> set es"
    using idx [of j b] Cons.prems(4) by auto
  show ?case
  proof (cases fl)
    case Continue
    then have loop: "session_loop e k st (req # reqs) = es @ session_loop e (Suc k) st' reqs"
      using r by simp
    have mem: "Reply (k + i) True \<in> set es \<union> set (session_loop e (Suc k) st' reqs)"
      using Cons.prems(3) unfolding loop by simp
    show ?thesis
    proof (cases i)
      case 0
      with Cons.prems(2) have run: "req_Type req = ''shell'' \<or> req_Type req = ''exec''" by simp
      have "Reply k True \<notin> set es"
        using r Continue run session_request_Continue_no_accept by blast
      moreover have "Reply k True \<notin> set (session_loop e (Suc k) st' reqs)"
        using session_loop_reply_range [of k True e "Suc k" st' reqs] by auto
      ultimately show ?thesis using mem 0 by simp
    next
      case (Suc i')
      have "Reply (k + i) True \<notin> set es"
        using idx [of "k + i" True] Suc by auto
      with mem Suc
      have a: "Reply (Suc k + i') True \<in> set (session_loop e (Suc k) st' reqs)" by simp
      have b: "i' < length reqs" using Cons.prems(1) Suc by simp
      have c: "req_Type (reqs ! i') = ''shell'' \<or> req_Type (reqs ! i') = ''exec''"
        using Cons.prems(2) Suc by simp
      have d: "Suc k + i' < j" using Cons.prems(4) Suc by simp
      have "Reply j b \<notin> set (session_loop e (Suc k) st' reqs)"
        by (rule Cons.IH [OF b c a d])
      with later show ?thesis unfolding loop by simp
    qed
  next
    case Return
    with r later show ?thesis by simp
  next
    case Blocked
    with r later show ?thesis by simp
  qed
qed

lemma session_loop_exec_accepted:
  "i < length reqs \<Longrightarrow> req_Type (reqs ! i) = ''exec'' \<Longrightarrow>
   Reply (k + i) True \<in> set (session_loop e k st reqs) \<Longrightarrow> ptyFile st = None \<Longrightarrow>
     \<exists>c. unmarshal_exec (req_Payload (reqs ! i)) = Some c \<and>
       filter starts_process (session_loop e k st reqs) =
         [CmdStart \<lparr>Args = [''/bin/sh'', ''-c'', c], Stdin = Some Channel,
                     Stdout = Some Channel, Stderr = Some ChannelStderr\<rparr> True] \<and>
       filter pty_or_relay (session_loop e k st reqs) = []"
proof (induction reqs arbitrary: k st i)
  case Nil
  then show ?case by simp
next
  case (Cons req reqs)
  obtain es st' fl where r: "session_request e k req st = (es, st', fl)"
    by (cases "session_request e k req st") auto
  have idx: "\<And>n c. Reply n c \<in> set es \<Longrightarrow> n = k"
    using r by (rule session_request_reply_index)
  show ?case
  proof (cases "fl = Continue")
    case True
    then have loop: "session_loop e k st (req # reqs) = es @ session_loop e (Suc k) st' reqs"
      using r by simp
    have quiet: "filter pty_or_relay es = []" and nofile: "ptyFile st' = None"
      using session_request_Continue_quiet [of e k req st es st'] r True Cons.prems(4) by simp_all
    have nostart: "filter starts_process es = []"
      using r True by (simp add: session_request_Continue_no_start)
    have mem: "Reply (k + i) True \<in> set es \<union> set (session_loop e (Suc k) st' reqs)"
      using Cons.prems(3) unfolding loop by simp
    show ?thesis
    proof (cases i)
      case 0
      with Cons.prems(2) have run: "req_Type req = ''shell'' \<or> req_Type req = ''exec''" by simp
      have "Reply k True \<notin> set es"
        using r True run session_request_Continue_no_accept by blast
      moreover have "Reply k True \<notin> set (session_loop e (Suc k) st' reqs)"
        using session_loop_reply_range [of k True e "Suc k" st' reqs] by auto
      ultimately show ?thesis using mem 0 by simp
    next
      case (Suc i')
      have "Reply (k + i) True \<notin> set es"
        using idx [of "k + i" True] Suc by auto
      with mem Suc
      have a: "Reply (Suc k + i') True \<in> set (session_loop e (Suc k) st' reqs)" by simp
      have b: "i' < length reqs" using Cons.prems(1) Suc by simp
      have c: "req_Type (reqs ! i') = ''exec''" using Cons.prems(2) Suc by simp
      from Cons.IH [OF b c a nofile] Suc quiet nostart show ?thesis
        unfolding loop by simp
    qed
  next
    case False
    define T where "T = session_loop e k st (req # reqs)"
    have loop: "T = es \<or> T = es @ [ChClose]"
      using r False unfolding T_def by (cases fl) simp_all
    have "Reply (k + i) True \<in> set T" using Cons.prems(3) unfolding T_def .
    then have "Reply (k + i) True \<in> set es" using loop by auto
    then have i0: "i = 0" using idx [of "k + i" True] by simp
    with Cons.prems(2) have ex: "req_Type req = ''exec''" by simp
    from i0 \<open>Reply (k + i) True \<in> set es\<close> have acc: "Reply k True \<in> set es" by simp
    from session_request_exec_accepted [OF r ex acc]
    obtain c where c: "unmarshal_exec (req_Payload req) = Some c"
      and es: "es = [CmdStart \<lparr>Args = [''/bin/sh'', ''-c'', c], Stdin = Some Channel,
                        Stdout = Some Channel, Stderr = Some ChannelStderr\<rparr> True,
             Reply k True] @ fst (wait_and_report e k)" by blast
    have w1: "filter starts_process (fst (wait_and_report e k)) = []"
      by (rule wait_and_report_no_start [of e k _ "snd (wait_and_report e k)"]) simp
    have w2: "filter pty_or_relay (fst (wait_and_report e k)) = []"
      by (rule wait_and_report_no_relay [of e k _ "snd (wait_and_report e k)"]) simp
    have s1: "filter starts_process es = [CmdStart \<lparr>Args = [''/bin/sh'', ''-c'', c], Stdin = Some Channel,
                        Stdout = Some Channel, Stderr = Some ChannelStderr\<rparr> True]"
      by (subst es) (simp add: w1)
    have s2: "filter pty_or_relay es = []"
      by (subst es) (simp add: w2)
    from loop s1 s2 have "filter starts_process T = [CmdStart \<lparr>Args = [''/bin/sh'', ''-c'', c], Stdin = Some Channel,
                        Stdout = Some Channel, Stderr = Some ChannelStderr\<rparr> True] \<and> filter pty_or_relay T = []"
      by auto
    with c i0 show ?thesis unfolding T_def by (simp del: session_loop.simps)
  qed
qed

text \<open>The events of the supervisor are those of its iterations.\<close>

lemma handleConn_chans_mem:
  "ev \<in> set (handleConn_chans accept k ts) \<longleftrightarrow>
     (\<exists>i<length ts. ev \<in> set (channel_open accept (k + i) (ts ! i)))"
proof (induction ts arbitrary: k)
  case Nil
  show ?case by simp
next
  case (Cons t ts)
  show ?case by (simp add: Cons.IH Ex_less_Suc2)
qed

lemma handleConn_mem:
  "ev \<in> set (handleConn True accept chans) \<longleftrightarrow>
     ev = GoDiscardRequests \<or> ev = ConnClose
     \<or> (\<exists>i<length chans. ev \<in> set (channel_open accept i (chans ! i)))"
  by (auto simp: handleConn_def handleConn_chans_mem)

text \<open>An iteration that ends the loop is an accepted run request.\<close>

lemma session_request_stop_accepts:
  "session_request e i req st = (es, st', fl) \<Longrightarrow> fl \<noteq> Continue \<Longrightarrow>
     run_request req \<and> Reply i True \<in> set es"
  by (auto simp: session_request_def Let_def run_request_def
           split: if_splits option.splits prod.splits)

text \<open>
  The loop reads request \<open>i\<close> exactly when no earlier run request was accepted, and then
  the trace is what the first \<open>i\<close> requests did, followed by the loop from request \<open>i\<close>.
\<close>

lemma session_steps_split:
  "session_steps e k st (take i reqs) = Some (pre, st') \<Longrightarrow> i \<le> length reqs \<Longrightarrow>
     session_loop e k st reqs = pre @ session_loop e (k + i) st' (drop i reqs)"
proof (induction reqs arbitrary: k st i pre)
  case Nil
  then show ?case by simp
next
  case (Cons req reqs)
  show ?case
  proof (cases i)
    case 0
    with Cons.prems show ?thesis by simp
  next
    case (Suc i')
    obtain es st1 fl where r: "session_request e k req st = (es, st1, fl)"
      by (cases "session_request e k req st") auto
    from Cons.prems(1) Suc r have fl: "fl = Continue"
      by (cases fl) simp_all
    from Cons.prems(1) Suc r fl obtain es' where
      s: "session_steps e (Suc k) st1 (take i' reqs) = Some (es', st')" and pre: "pre = es @ es'"
      by (auto split: option.splits)
    have "i' \<le> length reqs" using Cons.prems(2) Suc by simp
    from Cons.IH [OF s this] r fl pre Suc show ?thesis by simp
  qed
qed

lemma session_steps_reach:
  "i \<le> length reqs \<Longrightarrow>
   \<forall>j<i. run_request (reqs ! j) \<longrightarrow> Reply (k + j) True \<notin> set (session_loop e k st reqs) \<Longrightarrow>
     \<exists>pre st'. session_steps e k st (take i reqs) = Some (pre, st')"
proof (induction reqs arbitrary: k st i)
  case Nil
  then show ?case by simp
next
  case (Cons req reqs)
  show ?case
  proof (cases i)
    case 0
    then show ?thesis by simp
  next
    case (Suc i')
    obtain es st1 fl where r: "session_request e k req st = (es, st1, fl)"
      by (cases "session_request e k req st") auto
    have fl: "fl = Continue"
    proof (rule ccontr)
      assume n: "fl \<noteq> Continue"
      with r have a: "run_request req \<and> Reply k True \<in> set es"
        by (rule session_request_stop_accepts)
      have "set es \<subseteq> set (session_loop e k st (req # reqs))"
        using r by (cases fl) auto
      with a have "Reply (k + 0) True \<in> set (session_loop e k st (req # reqs))" by auto
      moreover have "run_request ((req # reqs) ! 0)" using a by simp
      ultimately show False using Cons.prems(2) Suc by blast
    qed
    then have loop: "session_loop e k st (req # reqs) = es @ session_loop e (Suc k) st1 reqs"
      using r by simp
    have "\<forall>j<i'. run_request (reqs ! j) \<longrightarrow>
            Reply (Suc k + j) True \<notin> set (session_loop e (Suc k) st1 reqs)"
    proof (intro allI impI)
      fix j assume j: "j < i'" and q: "run_request (reqs ! j)"
      from j Suc have "Suc j < i" by simp
      moreover from q have "run_request ((req # reqs) ! Suc j)" by simp
      ultimately have "Reply (k + Suc j) True \<notin> set (session_loop e k st (req # reqs))"
        using Cons.prems(2) by blast
      then show "Reply (Suc k + j) True \<notin> set (session_loop e (Suc k) st1 reqs)"
        unfolding loop by simp
    qed
    moreover have "i' \<le> length reqs" using Cons.prems(1) Suc by simp
    ultimately obtain pre st' where "session_steps e (Suc k) st1 (take i' reqs) = Some (pre, st')"
      using Cons.IH [of i' "Suc k" st1] by blast
    with r fl Suc show ?thesis by simp
  qed
qed

lemma session_steps_reply_range:
  "session_steps e k st reqs = Some (pre, st') \<Longrightarrow> Reply j b \<in> set pre \<Longrightarrow>
     k \<le> j \<and> j < k + length reqs"
proof (induction reqs arbitrary: k st pre)
  case Nil
  then show ?case by simp
next
  case (Cons req reqs)
  obtain es st1 fl where r: "session_request e k req st = (es, st1, fl)"
    by (cases "session_request e k req st") auto
  from Cons.prems(1) r have fl: "fl = Continue" by (cases fl) simp_all
  from Cons.prems(1) r fl obtain es' where
    s: "session_steps e (Suc k) st1 reqs = Some (es', st')" and pre: "pre = es @ es'"
    by (auto split: option.splits)
  show ?case
  proof (cases "Reply j b \<in> set es")
    case True
    with r have "j = k" by (rule session_request_reply_index)
    then show ?thesis by simp
  next
    case False
    with Cons.prems(2) pre have "Reply j b \<in> set es'" by simp
    with Cons.IH [OF s] show ?thesis by auto
  qed
qed

text \<open>
  A request whose iteration is a single rejection: when the loop reads it, the trace has
  that rejection at its place and goes on from the same state; when a run request was
  accepted before it, it gets no reply.
\<close>

lemma rejected_when_read:
  assumes i: "i < length reqs"
    and step: "\<And>st. session_request e i (reqs ! i) st = ([Reply i False], st, Continue)"
  shows "((\<forall>j<i. run_request (reqs ! j) \<longrightarrow> Reply j True \<notin> set (session_handler e reqs)) \<longrightarrow>
           (\<exists>pre st. session_steps e 0 session_init (take i reqs) = Some (pre, st) \<and>
              session_handler e reqs =
                pre @ Reply i False # session_loop e (Suc i) st (drop (Suc i) reqs)) \<and>
           Reply i True \<notin> set (session_handler e reqs))
       \<and> ((\<exists>j<i. run_request (reqs ! j) \<and> Reply j True \<in> set (session_handler e reqs)) \<longrightarrow>
           (\<forall>b. Reply i b \<notin> set (session_handler e reqs)))"
proof (intro conjI impI)
  assume h: "\<forall>j<i. run_request (reqs ! j) \<longrightarrow> Reply j True \<notin> set (session_handler e reqs)"
  then have "\<forall>j<i. run_request (reqs ! j) \<longrightarrow>
               Reply (0 + j) True \<notin> set (session_loop e 0 session_init reqs)"
    by (simp add: session_handler_def)
  with i obtain pre st where s: "session_steps e 0 session_init (take i reqs) = Some (pre, st)"
    using session_steps_reach [of i reqs 0 e session_init] by auto
  from session_steps_split [OF s] i
  have a: "session_handler e reqs = pre @ session_loop e i st (drop i reqs)"
    by (simp add: session_handler_def)
  from i have d: "drop i reqs = reqs ! i # drop (Suc i) reqs"
    by (simp add: Cons_nth_drop_Suc)
  have b: "session_loop e i st (drop i reqs) =
             Reply i False # session_loop e (Suc i) st (drop (Suc i) reqs)"
    unfolding d by (simp add: step)
  from a b have eq: "session_handler e reqs =
      pre @ Reply i False # session_loop e (Suc i) st (drop (Suc i) reqs)" by simp
  with s show "\<exists>pre st. session_steps e 0 session_init (take i reqs) = Some (pre, st) \<and>
      session_handler e reqs = pre @ Reply i False # session_loop e (Suc i) st (drop (Suc i) reqs)"
    by blast
  have "Reply i True \<notin> set pre"
    using session_steps_reply_range [OF s, of i True] i by auto
  moreover have "Reply i True \<notin> set (session_loop e (Suc i) st (drop (Suc i) reqs))"
    using session_loop_reply_range [of i True e "Suc i" st "drop (Suc i) reqs"] by auto
  ultimately show "Reply i True \<notin> set (session_handler e reqs)"
    unfolding eq by simp
next
  assume "\<exists>j<i. run_request (reqs ! j) \<and> Reply j True \<in> set (session_handler e reqs)"
  then obtain j where j: "j < i" and q: "run_request (reqs ! j)"
    and a: "Reply j True \<in> set (session_handler e reqs)" by blast
  show "\<forall>b. Reply i b \<notin> set (session_handler e reqs)"
  proof
    fix b
    from j i have jl: "j < length reqs" by simp
    from q have t: "req_Type (reqs ! j) = ''shell'' \<or> req_Type (reqs ! j) = ''exec''"
      by (simp add: run_request_def)
    from a have a': "Reply (0 + j) True \<in> set (session_loop e 0 session_init reqs)"
      by (simp add: session_handler_def)
    from j have ji: "0 + j < i" by simp
    from session_loop_silent_after_start [OF jl t a' ji]
    show "Reply i b \<notin> set (session_handler e reqs)" by (simp add: session_handler_def)
  qed
qed

lemma session_request_shell_payload:
  "req_Type req = ''shell'' \<Longrightarrow> req_Payload req \<noteq> [] \<Longrightarrow>
     session_request e i req st = ([Reply i False], st, Continue)"
  by (simp add: session_request_def)

lemma session_request_malformed:
  "(req_Type req = ''pty-req'' \<and> unmarshal_ptyreq (req_Payload req) = None)
   \<or> (req_Type req = ''exec'' \<and> unmarshal_exec (req_Payload req) = None)
   \<or> req_Type req \<notin> {''pty-req'', ''window-change'', ''shell'', ''exec''} \<Longrightarrow>
     session_request e i req st = ([Reply i False], st, Continue)"
  by (auto simp: session_request_def)

text \<open>The variables of the handler hold the geometry of the requests read so far.\<close>

lemma session_request_Continue_records:
  "session_request e i req st = (es, st', Continue) \<Longrightarrow>
     (ptyCols st', ptyRows st') = record_geometry (ptyCols st, ptyRows st) req \<and>
     ptyRequested st' = (ptyRequested st \<or>
        (req_Type req = ''pty-req'' \<and> unmarshal_ptyreq (req_Payload req) \<noteq> None))"
  by (auto simp: session_request_def Let_def record_geometry_def dest: wait_and_report_flow
           split: if_splits option.splits prod.splits)

lemma session_steps_records:
  "session_steps e k st reqs = Some (pre, st') \<Longrightarrow>
     (ptyCols st', ptyRows st') = foldl record_geometry (ptyCols st, ptyRows st) reqs \<and>
     ptyRequested st' = (ptyRequested st \<or> terminal_requested reqs)"
proof (induction reqs arbitrary: k st pre)
  case Nil
  then show ?case by (simp add: terminal_requested_def)
next
  case (Cons req reqs)
  obtain es st1 fl where r: "session_request e k req st = (es, st1, fl)"
    by (cases "session_request e k req st") auto
  from Cons.prems r have fl: "fl = Continue" by (cases fl) simp_all
  from Cons.prems r fl obtain es' where
    s: "session_steps e (Suc k) st1 reqs = Some (es', st')"
    by (auto split: option.splits)
  from r fl have one: "(ptyCols st1, ptyRows st1) = record_geometry (ptyCols st, ptyRows st) req \<and>
     ptyRequested st1 = (ptyRequested st \<or>
        (req_Type req = ''pty-req'' \<and> unmarshal_ptyreq (req_Payload req) \<noteq> None))"
    using session_request_Continue_records by blast
  from Cons.IH [OF s] one show ?case
    by (auto simp: terminal_requested_def)
qed

text \<open>The iteration that starts the shell on a terminal.\<close>

lemma session_request_shell_on_terminal:
  "req_Type req = ''shell'' \<Longrightarrow> req_Payload req = [] \<Longrightarrow> ptyRequested st \<Longrightarrow>
   pty_Start e i = Some f \<Longrightarrow>
     session_loop e i st (req # reqs) =
       [PtyStart (Command (if stat_bash e i then ''/bin/bash'' else ''/bin/sh'') [''-l'']) (Some f)]
       @ (if ptyCols st > 0 \<and> ptyRows st > 0
          then [Setsize f (ucast (ptyCols st)) (ucast (ptyRows st))] else [])
       @ [Reply i True, GoCopy (PtyFile f) Channel, GoCopy Channel (PtyFile f)]
       @ (case cmd_Wait e i of None \<Rightarrow> [] | Some w \<Rightarrow> wait_report w @ [ChClose])"
  by (simp add: session_request_def wait_and_report_def split: option.splits)

section \<open>One process per channel\<close>




section \<open>Geometry at terminal allocation\<close>

text \<open>
  C3, as the handler behaves. When the loop reads a \<^verbatim>\<open>shell\<close> request with an empty payload
  after a terminal was requested, and \<^verbatim>\<open>pty.Start\<close> succeeds, the terminal is given the
  geometry that the requests before it recorded last, whether a \<^verbatim>\<open>pty-req\<close> or a
  \<^verbatim>\<open>window-change\<close> recorded it: \<^verbatim>\<open>pty.Setsize\<close> is called with its columns and rows
  (their low 16 bits) when both are positive, and not at all otherwise. A resize before
  the \<^verbatim>\<open>pty-req\<close> is therefore overwritten by the geometry of the \<^verbatim>\<open>pty-req\<close>, and a resize
  between the \<^verbatim>\<open>pty-req\<close> and the \<^verbatim>\<open>shell\<close> request is the one applied.
\<close>

theorem geometry_at_allocation:
  assumes i: "i < length reqs"
    and shell: "req_Type (reqs ! i) = ''shell''" "req_Payload (reqs ! i) = []"
    and "read": "\<forall>j<i. run_request (reqs ! j) \<longrightarrow> Reply j True \<notin> set (session_handler e reqs)"
    and pty: "terminal_requested (take i reqs)"
    and start: "pty_Start e i = Some f"
    and geo: "last_geometry (take i reqs) = (c, r)"
  shows "\<exists>pre st. session_steps e 0 session_init (take i reqs) = Some (pre, st) \<and>
     session_handler e reqs =
       pre
       @ [PtyStart (Command (if stat_bash e i then ''/bin/bash'' else ''/bin/sh'') [''-l'']) (Some f)]
       @ (if c > 0 \<and> r > 0 then [Setsize f (ucast c) (ucast r)] else [])
       @ [Reply i True, GoCopy (PtyFile f) Channel, GoCopy Channel (PtyFile f)]
       @ (case cmd_Wait e i of None \<Rightarrow> [] | Some w \<Rightarrow> wait_report w @ [ChClose])"
proof -
  from "read" have "\<forall>j<i. run_request (reqs ! j) \<longrightarrow>
               Reply (0 + j) True \<notin> set (session_loop e 0 session_init reqs)"
    by (simp add: session_handler_def)
  with i obtain pre st where s: "session_steps e 0 session_init (take i reqs) = Some (pre, st)"
    using session_steps_reach [of i reqs 0 e session_init] by auto
  from session_steps_split [OF s] i
  have a: "session_handler e reqs = pre @ session_loop e i st (drop i reqs)"
    by (simp add: session_handler_def)
  from i have d: "drop i reqs = reqs ! i # drop (Suc i) reqs"
    by (simp add: Cons_nth_drop_Suc)
  from session_steps_records [OF s] pty geo
  have st: "ptyRequested st" "ptyCols st = c" "ptyRows st = r"
    by (simp_all add: session_init_def last_geometry_def)
  have b: "session_loop e i st (drop i reqs) =
       [PtyStart (Command (if stat_bash e i then ''/bin/bash'' else ''/bin/sh'') [''-l'']) (Some f)]
       @ (if c > 0 \<and> r > 0 then [Setsize f (ucast c) (ucast r)] else [])
       @ [Reply i True, GoCopy (PtyFile f) Channel, GoCopy Channel (PtyFile f)]
       @ (case cmd_Wait e i of None \<Rightarrow> [] | Some w \<Rightarrow> wait_report w @ [ChClose])"
    unfolding d using session_request_shell_on_terminal [OF shell st(1) start, of "drop (Suc i) reqs"]
    by (simp only: st)
  from s a b show ?thesis by (intro exI conjI) (assumption, simp only:)
qed

theorem geometry_at_allocation_witness:
  "last_geometry (take 2 [req_winch, req_ptyreq, req_shell]) = (132, 43) \<and>
   session_handler env_ok [req_winch, req_ptyreq, req_shell] =
     [Reply 1 True, PtyStart bash_login (Some 3), Setsize 3 132 43, Reply 2 True,
      GoCopy (PtyFile 3) Channel, GoCopy Channel (PtyFile 3),
      SendRequest ''exit-status'' False [0, 0, 0, 0], ChClose] \<and>
   last_geometry (take 2 [req_ptyreq, req_winch, req_shell]) = (80, 24) \<and>
   session_handler env_ok [req_ptyreq, req_winch, req_shell] =
     [Reply 0 True, PtyStart bash_login (Some 3), Setsize 3 80 24, Reply 2 True,
      GoCopy (PtyFile 3) Channel, GoCopy Channel (PtyFile 3),
      SendRequest ''exit-status'' False [0, 0, 0, 0], ChClose]"
proof -
  let ?a = "[req_winch, req_ptyreq, req_shell]" and ?b = "[req_ptyreq, req_winch, req_shell]"
  have t: "req_Type req_winch = ''window-change''" "req_Type req_ptyreq = ''pty-req''"
    "req_Type req_shell = ''shell''" "req_Payload req_shell = []"
    "req_Payload req_winch = payload_winch_80x24" "req_Payload req_ptyreq = payload_ptyreq_132x43"
    by (simp_all add: req_winch_def req_ptyreq_def req_shell_def)
  have f: "pty_Start env_ok 2 = Some 3" and bash: "stat_bash env_ok 2"
    and w: "cmd_Wait env_ok 2 = Some WaitNil" by (simp_all add: env_ok_def)
  have ga: "last_geometry (take 2 ?a) = (132, 43)" and gb: "last_geometry (take 2 ?b) = (80, 24)"
    by (simp_all add: last_geometry_def record_geometry_def t payload_winch_80x24_decodes
          payload_ptyreq_132x43_decodes)
  have pa: "terminal_requested (take 2 ?a)" and pb: "terminal_requested (take 2 ?b)"
    by (simp_all add: terminal_requested_def t payload_ptyreq_132x43_decodes)
  have ra: "\<forall>j<2. run_request (?a ! j) \<longrightarrow> Reply j True \<notin> set (session_handler env_ok ?a)"
    and rb: "\<forall>j<2. run_request (?b ! j) \<longrightarrow> Reply j True \<notin> set (session_handler env_ok ?b)"
    by (simp_all add: run_request_def t less_Suc_eq numeral_2_eq_2)
  have sa: "session_steps env_ok 0 session_init (take 2 ?a) =
      Some ([Reply 1 True], session_init\<lparr>ptyRequested := True, ptyCols := 132, ptyRows := 43\<rparr>)"
    and sb: "session_steps env_ok 0 session_init (take 2 ?b) =
      Some ([Reply 0 True], session_init\<lparr>ptyRequested := True, ptyCols := 80, ptyRows := 24\<rparr>)"
    by (simp_all add: session_request_def t payload_winch_80x24_decodes
          payload_ptyreq_132x43_decodes session_init_def)
  from geometry_at_allocation [of 2 ?a env_ok 3 132 43, OF _ _ _ ra pa f ga] sa
  have ca: "session_handler env_ok ?a =
     [Reply 1 True, PtyStart bash_login (Some 3), Setsize 3 132 43, Reply 2 True,
      GoCopy (PtyFile 3) Channel, GoCopy Channel (PtyFile 3),
      SendRequest ''exit-status'' False [0, 0, 0, 0], ChClose]"
    by (simp add: t bash w bash_login_def Command_def wait_report_def sendExitStatus_def
          marshal_uint32_def)
  from geometry_at_allocation [of 2 ?b env_ok 3 80 24, OF _ _ _ rb pb f gb] sb
  have cb: "session_handler env_ok ?b =
     [Reply 0 True, PtyStart bash_login (Some 3), Setsize 3 80 24, Reply 2 True,
      GoCopy (PtyFile 3) Channel, GoCopy Channel (PtyFile 3),
      SendRequest ''exit-status'' False [0, 0, 0, 0], ChClose]"
    by (simp add: t bash w bash_login_def Command_def wait_report_def sendExitStatus_def
          marshal_uint32_def)
  from ga gb ca cb show ?thesis by blast
qed

text \<open>
  C3 as stated fails: after a resize to 80 by 24 and a \<^verbatim>\<open>pty-req\<close> for 132 by 43, the terminal
  of the shell is sized 132 by 43.
\<close>

theorem resize_before_pty_request_counterexample:
  "Setsize 3 80 24 \<notin> set (session_handler env_ok [req_winch, req_ptyreq, req_shell]) \<and>
   Setsize 3 132 43 \<in> set (session_handler env_ok [req_winch, req_ptyreq, req_shell])"
  by (simp add: example_defs run_defs)

section \<open>Exit status\<close>

text \<open>
  C4, as the handler behaves. When an iteration has started a process and \<^verbatim>\<open>cmd.Wait\<close>
  returns \<^verbatim>\<open>nil\<close> or an \<^verbatim>\<open>*exec.ExitError\<close> that carries a wait status, exactly one
  \<^verbatim>\<open>exit-status\<close> request is sent, without asking for a reply; its payload is the status
  as a big-endian \<^verbatim>\<open>uint32\<close>, 0 for \<^verbatim>\<open>nil\<close>. It is the last call before the channel is
  closed. When \<^verbatim>\<open>cmd.Wait\<close> returns any other error, no \<^verbatim>\<open>exit-status\<close> is sent and the
  channel is closed. While the process runs, nothing is sent and nothing is closed.
\<close>

theorem exit_status_after_wait:
  assumes "session_request e i req st = (es, st', fl)" and "filter starts_process es \<noteq> []"
  shows "(cmd_Wait e i = None \<longrightarrow> fl = Blocked \<and> filter is_exit_status es = []
            \<and> session_loop e i st (req # reqs) = es)
       \<and> (\<forall>w. cmd_Wait e i = Some w \<longrightarrow> fl = Return
            \<and> filter is_exit_status es =
                (case w of
                   WaitNil \<Rightarrow> [SendRequest ''exit-status'' False (marshal_uint32 0)]
                 | WaitExitError (Some status) \<Rightarrow>
                     [SendRequest ''exit-status'' False (marshal_uint32 (word_of_int status))]
                 | WaitExitError None \<Rightarrow> []
                 | WaitOtherError \<Rightarrow> [])
            \<and> (\<exists>pre. es = pre @ filter is_exit_status es \<and> filter is_exit_status pre = [])
            \<and> session_loop e i st (req # reqs) = es @ [ChClose])"
proof -
  define pre where "pre = filter (\<lambda>ev. \<not> is_exit_status ev) es"
  define rep where "rep = filter is_exit_status es"
  from assms have es: "es = pre @ rep" and w: "wait_and_report e i = (rep, fl)"
    using session_request_started_shape [of e i req st es st' fl] by (simp_all add: pre_def rep_def)
  have pre: "filter is_exit_status pre = []" by (simp add: pre_def)
  from w have "(cmd_Wait e i = None \<and> rep = [] \<and> fl = Blocked)
     \<or> (\<exists>w. cmd_Wait e i = Some w \<and> rep = wait_report w \<and> fl = Return)"
    by (rule wait_and_report_cases)
  then show ?thesis
  proof
    assume "cmd_Wait e i = None \<and> rep = [] \<and> fl = Blocked"
    with es pre assms(1) show ?thesis by simp
  next
    assume "\<exists>w. cmd_Wait e i = Some w \<and> rep = wait_report w \<and> fl = Return"
    then obtain w where cw: "cmd_Wait e i = Some w" and rep: "rep = wait_report w" and fl: "fl = Return"
      by blast
    have f: "filter is_exit_status es = wait_report w"
      using es pre rep by (simp add: wait_report_exit_status)
    have shape: "wait_report w = (case w of
                   WaitNil \<Rightarrow> [SendRequest ''exit-status'' False (marshal_uint32 0)]
                 | WaitExitError (Some status) \<Rightarrow>
                     [SendRequest ''exit-status'' False (marshal_uint32 (word_of_int status))]
                 | WaitExitError None \<Rightarrow> []
                 | WaitOtherError \<Rightarrow> [])"
      by (simp add: wait_report_def sendExitStatus_def split: wait_result.splits option.splits)
    have "\<exists>pre. es = pre @ filter is_exit_status es \<and> filter is_exit_status pre = []"
      using es pre rep f by auto
    with cw fl f shape assms(1) show ?thesis by simp
  qed
qed

theorem exit_status_after_wait_witness:
  "session_request env_exit7 0 req_exec session_init =
     ([CmdStart \<lparr>Args = [''/bin/sh'', ''-c'', ''exit 7''], Stdin = Some Channel,
                 Stdout = Some Channel, Stderr = Some ChannelStderr\<rparr> True,
       Reply 0 True, SendRequest ''exit-status'' False [0, 0, 0, 7]], session_init, Return) \<and>
   session_loop env_exit7 0 session_init [req_exec, req_shell] =
     [CmdStart \<lparr>Args = [''/bin/sh'', ''-c'', ''exit 7''], Stdin = Some Channel,
                 Stdout = Some Channel, Stderr = Some ChannelStderr\<rparr> True,
       Reply 0 True, SendRequest ''exit-status'' False [0, 0, 0, 7]] @ [ChClose]"
proof -
  have r: "session_request env_exit7 0 req_exec session_init =
     ([CmdStart \<lparr>Args = [''/bin/sh'', ''-c'', ''exit 7''], Stdin = Some Channel,
                 Stdout = Some Channel, Stderr = Some ChannelStderr\<rparr> True,
       Reply 0 True, SendRequest ''exit-status'' False [0, 0, 0, 7]], session_init, Return)"
    by (simp add: example_defs run_defs env_exit7_def)
  have s: "filter starts_process
     [CmdStart \<lparr>Args = [''/bin/sh'', ''-c'', ''exit 7''], Stdin = Some Channel,
                 Stdout = Some Channel, Stderr = Some ChannelStderr\<rparr> True,
       Reply 0 True, SendRequest ''exit-status'' False [0, 0, 0, 7]] \<noteq> []" by simp
  have w: "cmd_Wait env_exit7 0 = Some (WaitExitError (Some 7))"
    by (simp add: env_exit7_def env_ok_def)
  from exit_status_after_wait [OF r s, of "[req_shell]"] w r show ?thesis by blast
qed

text \<open>
  C4 as stated fails: the process of an \<^verbatim>\<open>exec\<close> request has terminated, \<^verbatim>\<open>cmd.Wait\<close> returns
  an error that is not an \<^verbatim>\<open>*exec.ExitError\<close>, and the channel is closed without any
  \<^verbatim>\<open>exit-status\<close>.
\<close>

theorem wait_error_counterexample:
  "cmd_Wait env_wait_error 0 = Some WaitOtherError \<and>
   session_handler env_wait_error [req_exec] =
     [CmdStart \<lparr>Args = [''/bin/sh'', ''-c'', ''exit 7''], Stdin = Some Channel,
                 Stdout = Some Channel, Stderr = Some ChannelStderr\<rparr> True,
      Reply 0 True, ChClose]"
  by (simp add: example_defs run_defs env_wait_error_def)

section \<open>Output and exit status\<close>

text \<open>
  C2 fails on the code. A shell, with or without a terminal, writes \<^verbatim>\<open>done\n\<close> and exits
  with status 0. The schedule in which the handler goroutine makes all its calls, the
  \<^verbatim>\<open>exit-status\<close> request and the close of the channel included, before the output relay
  writes is one of the schedules of the run: no byte has been written to the channel
  when the \<^verbatim>\<open>exit-status\<close> is sent. In the schedule where the relay writes first, the five
  bytes come before it.
\<close>

theorem exit_status_overtakes_output:
  "session_handler env_ok [req_shell] =
     [CmdStart bash_pipes True, Reply 0 True, GoCopy StdinPipe Channel, GoCopy Channel StdoutPipe,
      GoCopy ChannelStderr StderrPipe, SendRequest ''exit-status'' False [0, 0, 0, 0], ChClose]
   \<and> map Call (session_handler env_ok [req_shell]) @ [ChWrite done_line]
       \<in> relay_schedules (session_handler env_ok [req_shell]) [done_line]
   \<and> written_before_exit (map Call (session_handler env_ok [req_shell]) @ [ChWrite done_line]) = []
   \<and> session_handler env_ok [req_ptyreq, req_shell] =
     [Reply 0 True, PtyStart bash_login (Some 3), Setsize 3 132 43, Reply 1 True,
      GoCopy (PtyFile 3) Channel, GoCopy Channel (PtyFile 3),
      SendRequest ''exit-status'' False [0, 0, 0, 0], ChClose]
   \<and> map Call (session_handler env_ok [req_ptyreq, req_shell]) @ [ChWrite done_line]
       \<in> relay_schedules (session_handler env_ok [req_ptyreq, req_shell]) [done_line]
   \<and> written_before_exit
         (map Call (session_handler env_ok [req_ptyreq, req_shell]) @ [ChWrite done_line]) = []
   \<and> [Call (CmdStart bash_pipes True), Call (Reply 0 True), Call (GoCopy StdinPipe Channel),
        Call (GoCopy Channel StdoutPipe), Call (GoCopy ChannelStderr StderrPipe), ChWrite done_line,
        Call (SendRequest ''exit-status'' False [0, 0, 0, 0]), Call ChClose]
       \<in> relay_schedules (session_handler env_ok [req_shell]) [done_line]
   \<and> written_before_exit
         [Call (CmdStart bash_pipes True), Call (Reply 0 True), Call (GoCopy StdinPipe Channel),
          Call (GoCopy Channel StdoutPipe), Call (GoCopy ChannelStderr StderrPipe), ChWrite done_line,
          Call (SendRequest ''exit-status'' False [0, 0, 0, 0]), Call ChClose] = done_line"
  by (simp add: example_defs run_defs bash_pipes_def bash_login_def image_iff)

section \<open>Failure to start\<close>

text \<open>
  C5. When \<^verbatim>\<open>pty.Start\<close> or \<^verbatim>\<open>cmd.Start\<close> fails for a \<^verbatim>\<open>shell\<close> or \<^verbatim>\<open>exec\<close> request, the
  request is answered with a rejection, no process is started and no \<^verbatim>\<open>exit-status\<close> is
  sent, the session state is unchanged, and the loop goes on with the next request.
\<close>

theorem spawn_failure_rejected:
  "(req_Type req = ''shell'' \<and> req_Payload req = [] \<and> ptyRequested st \<and> pty_Start e i = None)
   \<or> (req_Type req = ''shell'' \<and> req_Payload req = [] \<and> \<not> ptyRequested st \<and> \<not> cmd_Start e i)
   \<or> (req_Type req = ''exec'' \<and> unmarshal_exec (req_Payload req) \<noteq> None \<and> \<not> cmd_Start e i) \<Longrightarrow>
     \<exists>es c. session_request e i req st = (es, st, Continue) \<and>
       (es = [PtyStart c None, Reply i False] \<or> es = [CmdStart c False, Reply i False]) \<and>
       filter starts_process es = [] \<and> filter is_exit_status es = [] \<and>
       session_loop e i st (req # reqs) = es @ session_loop e (Suc i) st reqs"
  by (auto simp: session_request_def Let_def)

theorem spawn_failure_rejected_witness:
  "pty_Start env_spawn_fails 1 = None \<and> \<not> cmd_Start env_spawn_fails 1 \<and>
   (\<exists>es c. session_request env_spawn_fails 1 req_shell session_pty = (es, session_pty, Continue) \<and>
       (es = [PtyStart c None, Reply 1 False] \<or> es = [CmdStart c False, Reply 1 False]) \<and>
       filter starts_process es = [] \<and> filter is_exit_status es = [] \<and>
       session_loop env_spawn_fails 1 session_pty [req_shell, req_exec] =
         es @ session_loop env_spawn_fails 2 session_pty [req_exec]) \<and>
   (\<exists>es c. session_request env_spawn_fails 1 req_exec session_pty = (es, session_pty, Continue) \<and>
       (es = [PtyStart c None, Reply 1 False] \<or> es = [CmdStart c False, Reply 1 False]) \<and>
       filter starts_process es = [] \<and> filter is_exit_status es = [] \<and>
       session_loop env_spawn_fails 1 session_pty [req_exec] =
         es @ session_loop env_spawn_fails 2 session_pty [])"
proof -
  have e1: "pty_Start env_spawn_fails 1 = None" and e2: "\<not> cmd_Start env_spawn_fails 1"
    by (simp_all add: env_spawn_fails_def env_ok_def)
  have a: "req_Type req_shell = ''shell'' \<and> req_Payload req_shell = [] \<and> ptyRequested session_pty"
    by (simp add: req_shell_def session_pty_def)
  have b: "req_Type req_exec = ''exec'' \<and> unmarshal_exec (req_Payload req_exec) \<noteq> None"
    by (simp add: req_exec_def payload_exec_exit7_def unmarshal_exec_def parseString_def)
  have s: "Suc 1 = 2" by simp
  from spawn_failure_rejected [of req_shell session_pty env_spawn_fails 1 "[req_exec]"] a e1
    spawn_failure_rejected [of req_exec session_pty env_spawn_fails 1 "[]"] b e2 e1
  show ?thesis unfolding s by blast
qed

section \<open>Running an exact command\<close>

text \<open>
  C6. When an \<^verbatim>\<open>exec\<close> request is accepted, its payload decodes to a command \<open>c\<close>, and the
  only process ever started on the channel is \<^verbatim>\<open>/bin/sh -c c\<close> with standard input and
  output on the channel and standard error on its extended stream. No process is started
  on a terminal, no terminal is resized and no relay goroutine is launched, whatever
  requests came before, an accepted \<^verbatim>\<open>pty-req\<close> included.
\<close>

theorem exec_runs_sh_c:
  "i < length reqs \<Longrightarrow> req_Type (reqs ! i) = ''exec'' \<Longrightarrow>
   Reply i True \<in> set (session_handler e reqs) \<Longrightarrow>
     \<exists>c. unmarshal_exec (req_Payload (reqs ! i)) = Some c \<and>
       filter starts_process (session_handler e reqs) =
         [CmdStart \<lparr>Args = [''/bin/sh'', ''-c'', c], Stdin = Some Channel,
                     Stdout = Some Channel, Stderr = Some ChannelStderr\<rparr> True] \<and>
       filter pty_or_relay (session_handler e reqs) = []"
  unfolding session_handler_def
  using session_loop_exec_accepted [of i reqs 0 e session_init]
  by (simp add: session_init_def)

theorem exec_runs_sh_c_witness:
  "Reply 1 True \<in> set (session_handler env_ok [req_ptyreq, req_exec]) \<and>
   filter starts_process (session_handler env_ok [req_ptyreq, req_exec]) =
     [CmdStart \<lparr>Args = [''/bin/sh'', ''-c'', ''exit 7''], Stdin = Some Channel,
                 Stdout = Some Channel, Stderr = Some ChannelStderr\<rparr> True] \<and>
   filter pty_or_relay (session_handler env_ok [req_ptyreq, req_exec]) = []"
proof -
  have a: "Reply 1 True \<in> set (session_handler env_ok [req_ptyreq, req_exec])"
    by (simp add: example_defs run_defs)
  have t: "req_Type ([req_ptyreq, req_exec] ! 1) = ''exec''" by (simp add: req_exec_def)
  have c: "unmarshal_exec (req_Payload ([req_ptyreq, req_exec] ! 1)) = Some ''exit 7''"
    by (simp add: req_exec_def payload_exec_exit7_def unmarshal_exec_def parseString_def
          gostring_def char_of_def bit_0)
  from exec_runs_sh_c [of 1 "[req_ptyreq, req_exec]" env_ok, OF _ t a] c a
  show ?thesis by auto
qed

section \<open>Rejected requests\<close>

text \<open>
  C7, as the handler behaves. A \<^verbatim>\<open>shell\<close> request with a non-empty payload that the loop
  reads, that is, with no run request accepted before it, is answered with a rejection
  and with nothing else: no process is started, the loop goes on with the next request
  from the same state, and the request is never accepted. When a run request was
  accepted before it, the request is never read and gets no reply.
\<close>

theorem shell_with_payload_rejected_when_read:
  assumes "i < length reqs" and "req_Type (reqs ! i) = ''shell''" and "req_Payload (reqs ! i) \<noteq> []"
  shows "((\<forall>j<i. run_request (reqs ! j) \<longrightarrow> Reply j True \<notin> set (session_handler e reqs)) \<longrightarrow>
           (\<exists>pre st. session_steps e 0 session_init (take i reqs) = Some (pre, st) \<and>
              session_handler e reqs =
                pre @ Reply i False # session_loop e (Suc i) st (drop (Suc i) reqs)) \<and>
           Reply i True \<notin> set (session_handler e reqs))
       \<and> ((\<exists>j<i. run_request (reqs ! j) \<and> Reply j True \<in> set (session_handler e reqs)) \<longrightarrow>
           (\<forall>b. Reply i b \<notin> set (session_handler e reqs)))"
  using assms(1) by (rule rejected_when_read) (rule session_request_shell_payload [OF assms(2,3)])

theorem shell_with_payload_rejected_when_read_witness:
  "session_handler env_ok [req_ptyreq, req_shell_ls, req_exec] =
     [Reply 0 True] @ Reply 1 False
       # session_loop env_ok 2 (session_init\<lparr>ptyRequested := True, ptyCols := 132, ptyRows := 43\<rparr>)
           [req_exec]
   \<and> Reply 1 True \<notin> set (session_handler env_ok [req_ptyreq, req_shell_ls, req_exec])
   \<and> Reply 0 True \<in> set (session_handler env_ok [req_exec, req_shell_ls])
   \<and> Reply 1 False \<notin> set (session_handler env_ok [req_exec, req_shell_ls])"
proof -
  let ?a = "[req_ptyreq, req_shell_ls, req_exec]" and ?b = "[req_exec, req_shell_ls]"
  have t: "req_Type req_shell_ls = ''shell''" "req_Payload req_shell_ls \<noteq> []"
    "req_Type req_ptyreq = ''pty-req''" "req_Payload req_ptyreq = payload_ptyreq_132x43"
    "req_Type req_exec = ''exec''"
    by (simp_all add: req_shell_ls_def req_ptyreq_def req_exec_def)
  have ra: "\<forall>j<1. run_request (?a ! j) \<longrightarrow> Reply j True \<notin> set (session_handler env_ok ?a)"
    by (simp add: run_request_def t)
  have sa: "session_steps env_ok 0 session_init (take 1 ?a) =
      Some ([Reply 0 True], session_init\<lparr>ptyRequested := True, ptyCols := 132, ptyRows := 43\<rparr>)"
    by (simp add: session_request_def t payload_ptyreq_132x43_decodes)
  have acc: "Reply 0 True \<in> set (session_handler env_ok ?b)"
    by (simp add: example_defs run_defs)
  then have rb: "\<exists>j<1. run_request (?b ! j) \<and> Reply j True \<in> set (session_handler env_ok ?b)"
    by (simp add: run_request_def t)
  have i: "1 < length ?a" "1 < length ?b" by simp_all
  have ty: "req_Type (?a ! 1) = ''shell''" "req_Type (?b ! 1) = ''shell''" by (simp_all add: t)
  have pl: "req_Payload (?a ! 1) \<noteq> []" "req_Payload (?b ! 1) \<noteq> []" by (simp_all add: t)
  note tha = shell_with_payload_rejected_when_read [OF i(1) ty(1) pl(1), of env_ok]
  note thb = shell_with_payload_rejected_when_read [OF i(2) ty(2) pl(2), of env_ok]
  from mp [OF conjunct1 [OF tha] ra] obtain pre st where
    steps: "session_steps env_ok 0 session_init (take 1 ?a) = Some (pre, st)"
    and eq: "session_handler env_ok ?a =
               pre @ Reply 1 False # session_loop env_ok (Suc 1) st (drop (Suc 1) ?a)"
    and nt: "Reply 1 True \<notin> set (session_handler env_ok ?a)" by blast
  from steps sa have "pre = [Reply 0 True]"
    and "st = session_init\<lparr>ptyRequested := True, ptyCols := 132, ptyRows := 43\<rparr>" by simp_all
  with eq nt have a: "session_handler env_ok ?a =
     [Reply 0 True] @ Reply 1 False
       # session_loop env_ok 2 (session_init\<lparr>ptyRequested := True, ptyCols := 132, ptyRows := 43\<rparr>)
           [req_exec]
     \<and> Reply 1 True \<notin> set (session_handler env_ok ?a)"
    by (simp del: session_loop.simps add: numeral_2_eq_2)
  from spec [OF mp [OF conjunct2 [OF thb] rb], of False]
  have b: "Reply 1 False \<notin> set (session_handler env_ok ?b)" .
  from a acc b show ?thesis by blast
qed

text \<open>
  C7 as stated fails: a \<^verbatim>\<open>shell\<close> request with a payload that follows an accepted \<^verbatim>\<open>exec\<close>
  request gets no reply; the handler has returned.
\<close>

theorem shell_with_payload_unread_counterexample:
  "session_handler env_exit7 [req_exec, req_shell_ls] =
     [CmdStart sh_exit7 True, Reply 0 True, SendRequest ''exit-status'' False [0, 0, 0, 7], ChClose]
   \<and> Reply 1 False \<notin> set (session_handler env_exit7 [req_exec, req_shell_ls])"
  by (simp add: example_defs run_defs env_exit7_def sh_exit7_def)

text \<open>
  C9, as the handler behaves. A \<^verbatim>\<open>pty-req\<close> or \<^verbatim>\<open>exec\<close> request whose payload does not
  decode, and a request of any type other than \<^verbatim>\<open>pty-req\<close>, \<^verbatim>\<open>window-change\<close>, \<^verbatim>\<open>shell\<close> and
  \<^verbatim>\<open>exec\<close>, that the loop reads, that is, with no run request accepted before it, is
  answered with a rejection and with nothing else: the loop goes on with the next request
  from the same state. When a run request was accepted before it, the request is never
  read and gets no reply.
\<close>

theorem malformed_or_unsupported_rejected_when_read:
  assumes "i < length reqs"
    and "(req_Type (reqs ! i) = ''pty-req'' \<and> unmarshal_ptyreq (req_Payload (reqs ! i)) = None)
       \<or> (req_Type (reqs ! i) = ''exec'' \<and> unmarshal_exec (req_Payload (reqs ! i)) = None)
       \<or> req_Type (reqs ! i) \<notin> {''pty-req'', ''window-change'', ''shell'', ''exec''}"
  shows "((\<forall>j<i. run_request (reqs ! j) \<longrightarrow> Reply j True \<notin> set (session_handler e reqs)) \<longrightarrow>
           (\<exists>pre st. session_steps e 0 session_init (take i reqs) = Some (pre, st) \<and>
              session_handler e reqs =
                pre @ Reply i False # session_loop e (Suc i) st (drop (Suc i) reqs)) \<and>
           Reply i True \<notin> set (session_handler e reqs))
       \<and> ((\<exists>j<i. run_request (reqs ! j) \<and> Reply j True \<in> set (session_handler e reqs)) \<longrightarrow>
           (\<forall>b. Reply i b \<notin> set (session_handler e reqs)))"
  using assms(1) by (rule rejected_when_read) (rule session_request_malformed [OF assms(2)])

theorem malformed_or_unsupported_rejected_when_read_witness:
  "session_handler env_ok [req_ptyreq_short, req_exec_short, req_env] =
     [] @ Reply 0 False # session_loop env_ok 1 session_init [req_exec_short, req_env]
   \<and> session_handler env_ok [req_ptyreq_short, req_exec_short, req_env] =
     [Reply 0 False] @ Reply 1 False # session_loop env_ok 2 session_init [req_env]
   \<and> session_handler env_ok [req_ptyreq_short, req_exec_short, req_env] =
     [Reply 0 False, Reply 1 False] @ Reply 2 False # session_loop env_ok 3 session_init []
   \<and> Reply 1 False \<notin> set (session_handler env_ok [req_exec, req_env])"
proof -
  let ?a = "[req_ptyreq_short, req_exec_short, req_env]" and ?b = "[req_exec, req_env]"
  have t: "req_Type req_ptyreq_short = ''pty-req''" "req_Type req_exec_short = ''exec''"
    "req_Type req_env = ''env''" "req_Type req_exec = ''exec''"
    by (simp_all add: req_ptyreq_short_def req_exec_short_def req_env_def req_exec_def)
  have u: "unmarshal_ptyreq (req_Payload req_ptyreq_short) = None"
    "unmarshal_exec (req_Payload req_exec_short) = None"
    by (simp_all add: req_ptyreq_short_def req_exec_short_def unmarshal_ptyreq_def
          unmarshal_exec_def parseString_def)
  have r0: "\<forall>j<0. run_request (?a ! j) \<longrightarrow> Reply j True \<notin> set (session_handler env_ok ?a)"
    by simp
  have r1: "\<forall>j<1. run_request (?a ! j) \<longrightarrow> Reply j True \<notin> set (session_handler env_ok ?a)"
    by (simp add: run_request_def t)
  have n: "Reply 1 True \<notin> set (session_handler env_ok ?a)"
    using malformed_or_unsupported_rejected_when_read [of 1 ?a env_ok] r1 t u by simp
  have r2: "\<forall>j<2. run_request (?a ! j) \<longrightarrow> Reply j True \<notin> set (session_handler env_ok ?a)"
    using n by (simp add: run_request_def t less_Suc_eq numeral_2_eq_2)
  have s0: "session_steps env_ok 0 session_init (take 0 ?a) = Some ([], session_init)" by simp
  have s1: "session_steps env_ok 0 session_init (take 1 ?a) = Some ([Reply 0 False], session_init)"
    by (simp add: session_request_def t u)
  have s2: "session_steps env_ok 0 session_init (take 2 ?a) =
              Some ([Reply 0 False, Reply 1 False], session_init)"
    by (simp add: session_request_def t u numeral_2_eq_2)
  have acc: "Reply 0 True \<in> set (session_handler env_ok ?b)"
    by (simp add: example_defs run_defs)
  then have rb: "\<exists>j<1. run_request (?b ! j) \<and> Reply j True \<in> set (session_handler env_ok ?b)"
    by (simp add: run_request_def t)
  from malformed_or_unsupported_rejected_when_read [of 0 ?a env_ok] r0 s0 t u
  have a: "session_handler env_ok ?a =
     [] @ Reply 0 False # session_loop env_ok 1 session_init [req_exec_short, req_env]"
    by simp
  from malformed_or_unsupported_rejected_when_read [of 1 ?a env_ok] r1 s1 t u
  have b: "session_handler env_ok ?a =
     [Reply 0 False] @ Reply 1 False # session_loop env_ok 2 session_init [req_env]"
    by (simp add: numeral_2_eq_2)
  from malformed_or_unsupported_rejected_when_read [of 2 ?a env_ok] r2 s2 t u
  have c: "session_handler env_ok ?a =
     [Reply 0 False, Reply 1 False] @ Reply 2 False # session_loop env_ok 3 session_init []"
    by (simp add: numeral_3_eq_3 numeral_2_eq_2)
  from malformed_or_unsupported_rejected_when_read [of 1 ?b env_ok] rb t
  have d: "Reply 1 False \<notin> set (session_handler env_ok ?b)" by simp
  from a b c d show ?thesis by blast
qed

text \<open>
  C9 as stated fails: a malformed \<^verbatim>\<open>pty-req\<close>, a malformed \<^verbatim>\<open>exec\<close> and a request of type
  \<^verbatim>\<open>env\<close> that follow an accepted \<^verbatim>\<open>exec\<close> request get no reply.
\<close>

theorem malformed_unread_counterexample:
  "session_handler env_exit7 [req_exec, req_ptyreq_short, req_exec_short, req_env] =
     [CmdStart sh_exit7 True, Reply 0 True, SendRequest ''exit-status'' False [0, 0, 0, 7], ChClose]
   \<and> Reply 1 False \<notin> set (session_handler env_exit7 [req_exec, req_ptyreq_short, req_exec_short, req_env])
   \<and> Reply 2 False \<notin> set (session_handler env_exit7 [req_exec, req_ptyreq_short, req_exec_short, req_env])
   \<and> Reply 3 False \<notin> set (session_handler env_exit7 [req_exec, req_ptyreq_short, req_exec_short, req_env])"
  by (simp add: example_defs run_defs env_exit7_def sh_exit7_def)

section \<open>Channel types\<close>

text \<open>
  C8, as the supervisor behaves. A channel-open event of a type other than
  \<^verbatim>\<open>session\<close> is rejected with \<^verbatim>\<open>UnknownChannelType\<close>, is never accepted and gets no
  session goroutine. For a channel-open event of type \<^verbatim>\<open>session\<close>, \<^verbatim>\<open>Accept\<close> is called and
  the event is never rejected; a session goroutine is launched for it exactly when
  \<^verbatim>\<open>Accept\<close> succeeds.
\<close>

theorem session_channels_only:
  "k < length chans \<Longrightarrow>
     (chans ! k \<noteq> ''session'' \<longrightarrow>
        NewChannelReject k UnknownChannelType ''only session channels are supported''
          \<in> set (handleConn True accept chans)
        \<and> (\<forall>b. NewChannelAccept k b \<notin> set (handleConn True accept chans))
        \<and> GoSession k \<notin> set (handleConn True accept chans))
   \<and> (chans ! k = ''session'' \<longrightarrow>
        NewChannelAccept k (accept k) \<in> set (handleConn True accept chans)
        \<and> (\<forall>r m. NewChannelReject k r m \<notin> set (handleConn True accept chans))
        \<and> (GoSession k \<in> set (handleConn True accept chans) \<longleftrightarrow> accept k))"
  by (auto simp: handleConn_mem channel_open_def split: if_splits)

theorem session_channels_only_witness:
  "NewChannelReject 1 UnknownChannelType ''only session channels are supported''
     \<in> set (handleConn True (\<lambda>k. k \<noteq> 2) [''session'', ''direct-tcpip'', ''session''])
   \<and> GoSession 1 \<notin> set (handleConn True (\<lambda>k. k \<noteq> 2) [''session'', ''direct-tcpip'', ''session''])
   \<and> GoSession 0 \<in> set (handleConn True (\<lambda>k. k \<noteq> 2) [''session'', ''direct-tcpip'', ''session''])
   \<and> GoSession 2 \<notin> set (handleConn True (\<lambda>k. k \<noteq> 2) [''session'', ''direct-tcpip'', ''session''])"
  using session_channels_only [of 0 "[''session'', ''direct-tcpip'', ''session'']" "\<lambda>k. k \<noteq> 2"]
    session_channels_only [of 1 "[''session'', ''direct-tcpip'', ''session'']" "\<lambda>k. k \<noteq> 2"]
    session_channels_only [of 2 "[''session'', ''direct-tcpip'', ''session'']" "\<lambda>k. k \<noteq> 2"]
  by simp

text \<open>
  C8 as stated fails: when \<^verbatim>\<open>Accept\<close> returns an error for a \<^verbatim>\<open>session\<close> channel, the
  supervisor goes on to the next event and launches no session goroutine.
\<close>

theorem session_accept_fails_counterexample:
  "handleConn True (\<lambda>k. False) [''session''] = [GoDiscardRequests, NewChannelAccept 0 False, ConnClose]
   \<and> GoSession 0 \<notin> set (handleConn True (\<lambda>k. False) [''session''])"
  by (simp add: handleConn_def channel_open_def)

section \<open>Truncation of the geometry\<close>

text \<open>
  C10. Every \<^verbatim>\<open>pty.Setsize\<close> the handler calls, at the start of the shell or for a
  \<^verbatim>\<open>window-change\<close> on a live terminal, carries the recorded or received \<^verbatim>\<open>uint32\<close> columns
  and rows modulo 65536.
\<close>

theorem setsize_truncates:
  "session_request e i req st = (es, st', fl) \<Longrightarrow> Setsize f c r \<in> set es \<Longrightarrow>
     (req_Type req = ''shell'' \<and> pty_Start e i = Some f \<and>
        unat c = unat (ptyCols st) mod 65536 \<and> unat r = unat (ptyRows st) mod 65536)
     \<or> (req_Type req = ''window-change'' \<and> ptyFile st = Some f \<and>
          (\<exists>wc. unmarshal_winch (req_Payload req) = Some wc \<and>
             unat c = unat (wc_Cols wc) mod 65536 \<and> unat r = unat (wc_Rows wc) mod 65536))"
  by (auto simp: session_request_def Let_def unsigned_ucast_eq take_bit_eq_mod dest: wait_and_report_events
           split: if_splits option.splits prod.splits)

theorem setsize_truncates_witness:
  "session_request env_ok 1 req_shell session_wide =
     ([PtyStart \<lparr>Args = [''/bin/bash'', ''-l''], Stdin = None, Stdout = None, Stderr = None\<rparr> (Some 3),
       Setsize 3 80 24, Reply 1 True, GoCopy (PtyFile 3) Channel, GoCopy Channel (PtyFile 3),
       SendRequest ''exit-status'' False [0, 0, 0, 0]],
      session_wide\<lparr>ptyFile := Some 3\<rparr>, Return) \<and>
   unat (80 :: uint16) = unat (ptyCols session_wide) mod 65536 \<and>
   unat (24 :: uint16) = unat (ptyRows session_wide) mod 65536 \<and>
   session_request env_ok 4 req_winch_wide session_live =
     ([Setsize 3 80 24], session_live\<lparr>ptyCols := 65616, ptyRows := 24\<rparr>, Continue) \<and>
   (\<exists>wc. unmarshal_winch (req_Payload req_winch_wide) = Some wc \<and>
      unat (80 :: uint16) = unat (wc_Cols wc) mod 65536 \<and>
      unat (24 :: uint16) = unat (wc_Rows wc) mod 65536)"
proof -
  have r: "session_request env_ok 1 req_shell session_wide =
     ([PtyStart \<lparr>Args = [''/bin/bash'', ''-l''], Stdin = None, Stdout = None, Stderr = None\<rparr> (Some 3),
       Setsize 3 80 24, Reply 1 True, GoCopy (PtyFile 3) Channel, GoCopy Channel (PtyFile 3),
       SendRequest ''exit-status'' False [0, 0, 0, 0]],
      session_wide\<lparr>ptyFile := Some 3\<rparr>, Return)"
    by (simp add: example_defs run_defs session_wide_def)
  have t: "req_Type req_shell \<noteq> ''window-change''" by (simp add: req_shell_def)
  have q: "session_request env_ok 4 req_winch_wide session_live =
     ([Setsize 3 80 24], session_live\<lparr>ptyCols := 65616, ptyRows := 24\<rparr>, Continue)"
    by (simp add: example_defs run_defs session_live_def req_winch_wide_def)
  have u: "req_Type req_winch_wide \<noteq> ''shell''" by (simp add: req_winch_wide_def)
  from setsize_truncates [OF r, of 3 80 24] t r
  have first: "unat (80 :: uint16) = unat (ptyCols session_wide) mod 65536 \<and>
               unat (24 :: uint16) = unat (ptyRows session_wide) mod 65536" by simp
  from setsize_truncates [OF q, of 3 80 24] u q
  have second: "\<exists>wc. unmarshal_winch (req_Payload req_winch_wide) = Some wc \<and>
      unat (80 :: uint16) = unat (wc_Cols wc) mod 65536 \<and>
      unat (24 :: uint16) = unat (wc_Rows wc) mod 65536" by simp
  from r q first second show ?thesis by blast
qed

end
